theory Spec2Isabelle
  imports Main
begin

section \<open>JavaScript strings\<close>

text \<open>
  A JavaScript string is modelled as a \<^typ>\<open>string\<close>: one \<^typ>\<open>char\<close> per code
  unit, for the code units U+0000 to U+00FF. Code units above U+00FF are outside the
  model, but for the names and values of a query: decoding them can make any code
  point of Unicode, and they are lists of UTF-16 code units, each an \<^typ>\<open>int\<close>.
\<close>

type_synonym ustring = "int list"

text \<open>A string of the code units U+0000 to U+00FF as a list of code units.\<close>

definition ustr :: "string \<Rightarrow> ustring" where
  "ustr s = map of_char s"

text \<open>\<^verbatim>\<open>String.prototype.startsWith\<close>, used to write \<^verbatim>\<open>includes\<close>.\<close>

definition startsWith :: "string \<Rightarrow> string \<Rightarrow> bool" where
  "startsWith s t = (take (length t) s = t)"

text \<open>\<^verbatim>\<open>String.prototype.includes\<close>: \<open>t\<close> occurs in \<open>s\<close> at some position.\<close>

fun String_includes :: "string \<Rightarrow> string \<Rightarrow> bool" where
  "String_includes [] t = (t = [])"
| "String_includes (c # cs) t = (startsWith (c # cs) t \<or> String_includes cs t)"

text \<open>
  The white space and line terminators that \<^verbatim>\<open>String.prototype.trim\<close> removes, among
  the code units of the model: TAB, LF, VT, FF, CR, SPACE and NO-BREAK SPACE.
\<close>

definition isWhiteSpace :: "char \<Rightarrow> bool" where
  "isWhiteSpace c =
     (c \<in> set [CHR 0x09, CHR 0x0A, CHR 0x0B, CHR 0x0C, CHR 0x0D, CHR 0x20, CHR 0xA0])"

definition trim :: "string \<Rightarrow> string" where
  "trim s = rev (dropWhile isWhiteSpace (rev (dropWhile isWhiteSpace s)))"

text \<open>
  A value that is a string, \<^verbatim>\<open>null\<close> or \<^verbatim>\<open>undefined\<close> is an option of a list of
  code units; it is truthy when it is a non-empty string.
\<close>

definition truthy :: "'a list option \<Rightarrow> bool" where
  "truthy v = (case v of None \<Rightarrow> False | Some s \<Rightarrow> s \<noteq> [])"

section \<open>The URL library\<close>

text \<open>
  \<^verbatim>\<open>new URL(u)\<close> first cleans its input: C0 controls and spaces are taken from both
  ends, and every tab and newline is taken out. With no base it throws a TypeError
  when what is left has no scheme: a scheme is an ASCII letter, then letters, digits,
  \<open>+\<close>, \<open>-\<close> or \<open>.\<close>, then a colon. The URLs that \<^verbatim>\<open>chrome.tabs.query\<close> reports
  are serialised URLs, which the parser's validation of host and port accepts: that
  validation is not modelled. The parser's percent-encoding of the query is undone by
  the decoding of \<^verbatim>\<open>URLSearchParams\<close> and is left out of both.
\<close>

definition isC0OrSpace :: "char \<Rightarrow> bool" where
  "isC0OrSpace c = ((of_char c :: nat) \<le> 32)"

definition isTabOrNewline :: "char \<Rightarrow> bool" where
  "isTabOrNewline c = (c \<in> set [CHR 0x09, CHR 0x0A, CHR 0x0D])"

definition URL_clean :: "string \<Rightarrow> string" where
  "URL_clean u =
     filter (\<lambda>c. \<not> isTabOrNewline c)
       (rev (dropWhile isC0OrSpace (rev (dropWhile isC0OrSpace u))))"

definition isAlpha :: "char \<Rightarrow> bool" where
  "isAlpha c =
     (let n = (of_char c :: nat) in (97 \<le> n \<and> n \<le> 122) \<or> (65 \<le> n \<and> n \<le> 90))"

definition isDigit :: "char \<Rightarrow> bool" where
  "isDigit c = (let n = (of_char c :: nat) in 48 \<le> n \<and> n \<le> 57)"

definition isSchemeChar :: "char \<Rightarrow> bool" where
  "isSchemeChar c = (isAlpha c \<or> isDigit c \<or> c \<in> set [CHR ''+'', CHR ''-'', CHR ''.''])"

definition hasScheme :: "string \<Rightarrow> bool" where
  "hasScheme u =
     (case u of
        [] \<Rightarrow> False
      | c # cs \<Rightarrow>
          isAlpha c \<and>
          (case dropWhile isSchemeChar cs of [] \<Rightarrow> False | d # _ \<Rightarrow> d = CHR '':''))"

text \<open>
  \<^verbatim>\<open>new URL(u).search\<close>: \<open>None\<close> when the constructor throws; otherwise the query of
  the URL with its leading \<open>?\<close>, or the empty string when the query is absent or empty.
  The fragment (from the first \<open>#\<close>) is not part of the query.
\<close>

definition URL_search :: "string \<Rightarrow> string option" where
  "URL_search u =
     (let input = URL_clean u in
      if hasScheme input then
        (let q = dropWhile (\<lambda>c. c \<noteq> CHR ''?'') (takeWhile (\<lambda>c. c \<noteq> CHR ''#'') input)
         in Some (if length q \<le> 1 then [] else q))
      else None)"

fun splitOn :: "char \<Rightarrow> string \<Rightarrow> string list" where
  "splitOn d [] = [[]]"
| "splitOn d (c # cs) =
     (if c = d then [] # splitOn d cs
      else (case splitOn d cs of [] \<Rightarrow> [[c]] | x # xs \<Rightarrow> (c # x) # xs))"

definition hexVal :: "char \<Rightarrow> nat option" where
  "hexVal c =
     (let n = (of_char c :: nat) in
      if 48 \<le> n \<and> n \<le> 57 then Some (n - 48)
      else if 97 \<le> n \<and> n \<le> 102 then Some (n - 87)
      else if 65 \<le> n \<and> n \<le> 70 then Some (n - 55)
      else None)"

text \<open>
  Percent-decoding: \<open>%\<close> followed by two hexadecimal digits is the byte they write;
  every other character stands for itself.
\<close>

fun percentDecode :: "string \<Rightarrow> string" where
  "percentDecode [] = []"
| "percentDecode [c] = [c]"
| "percentDecode [c, d] = [c, d]"
| "percentDecode (c # h1 # h2 # cs) =
     (if c = CHR ''%'' then
        (case (hexVal h1, hexVal h2) of
           (Some a, Some b) \<Rightarrow> char_of (16 * a + b) # percentDecode cs
         | _ \<Rightarrow> c # percentDecode (h1 # h2 # cs))
      else c # percentDecode (h1 # h2 # cs))"

text \<open>
  The UTF-8 encoding of a string of the code units U+0000 to U+00FF: one byte below
  U+0080, two bytes from there on.
\<close>

definition utf8Encode :: "string \<Rightarrow> string" where
  "utf8Encode s =
     concat
       (map (\<lambda>c. let n = (of_char c :: nat) in
                  if n < 128 then [c]
                  else [char_of (192 + n div 64), char_of (128 + n mod 64)]) s)"

text \<open>
  The UTF-8 decoder of the Encoding Standard, from bytes to code points:
  \<open>utf8Decode cp needed lo hi bs\<close> has read the code point \<open>cp\<close> so far, needs
  \<open>needed\<close> more bytes for it, and takes the next byte for a continuation when it
  lies between \<open>lo\<close> and \<open>hi\<close>. A byte that cannot start or continue a sequence makes
  U+FFFD; a byte that cannot continue is read again as the start of a sequence; a
  sequence cut short by the end of the input makes U+FFFD.
\<close>

fun utf8Decode :: "int \<Rightarrow> nat \<Rightarrow> int \<Rightarrow> int \<Rightarrow> int list \<Rightarrow> int list" where
  "utf8Decode cp 0 lo hi [] = []"
| "utf8Decode cp (Suc n) lo hi [] = [0xFFFD]"
| "utf8Decode cp 0 lo hi (b # bs) =
     (if b \<le> 0x7F then b # utf8Decode 0 0 0x80 0xBF bs
      else if 0xC2 \<le> b \<and> b \<le> 0xDF then utf8Decode (b mod 32) 1 0x80 0xBF bs
      else if 0xE0 \<le> b \<and> b \<le> 0xEF then
        utf8Decode (b mod 16) 2 (if b = 0xE0 then 0xA0 else 0x80)
          (if b = 0xED then 0x9F else 0xBF) bs
      else if 0xF0 \<le> b \<and> b \<le> 0xF4 then
        utf8Decode (b mod 8) 3 (if b = 0xF0 then 0x90 else 0x80)
          (if b = 0xF4 then 0x8F else 0xBF) bs
      else 0xFFFD # utf8Decode 0 0 0x80 0xBF bs)"
| "utf8Decode cp (Suc n) lo hi (b # bs) =
     (if lo \<le> b \<and> b \<le> hi then
        (if n = 0 then (cp * 64 + b mod 64) # utf8Decode 0 0 0x80 0xBF bs
         else utf8Decode (cp * 64 + b mod 64) n 0x80 0xBF bs)
      else 0xFFFD # utf8Decode 0 0 0x80 0xBF (b # bs))"

text \<open>
  Code points as the code units of a JavaScript string: a code point from U+10000 on
  is a pair of surrogates.
\<close>

definition utf16Encode :: "int list \<Rightarrow> ustring" where
  "utf16Encode cps =
     concat
       (map (\<lambda>cp. if cp < 0x10000 then [cp]
                   else [0xD800 + (cp - 0x10000) div 0x400,
                         0xDC00 + (cp - 0x10000) mod 0x400]) cps)"

text \<open>
  The decoding of one name or value of the \<^verbatim>\<open>application/x-www-form-urlencoded\<close>
  parser, from bytes: \<open>+\<close> is a space, then percent-decoding, then UTF-8 decoding.
\<close>

definition formDecode :: "string \<Rightarrow> ustring" where
  "formDecode s =
     utf16Encode
       (utf8Decode 0 0 0x80 0xBF
          (map of_char
             (percentDecode (map (\<lambda>c. if c = CHR ''+'' then CHR '' '' else c) s))))"

definition parsePair :: "string \<Rightarrow> ustring \<times> ustring" where
  "parsePair s =
     (let name = takeWhile (\<lambda>c. c \<noteq> CHR ''='') s;
          rest = dropWhile (\<lambda>c. c \<noteq> CHR ''='') s
      in (formDecode name, formDecode (case rest of [] \<Rightarrow> [] | _ # v \<Rightarrow> v)))"

text \<open>
  \<^verbatim>\<open>new URLSearchParams(init)\<close> for a string: a leading \<open>?\<close> is dropped, the rest is
  encoded in UTF-8 and split at \<open>&\<close>, empty pieces are skipped, and each piece is a
  name and a value.
\<close>

definition URLSearchParams :: "string \<Rightarrow> (ustring \<times> ustring) list" where
  "URLSearchParams init =
     map parsePair
       (filter (\<lambda>s. s \<noteq> [])
          (splitOn CHR ''&''
             (utf8Encode
                (case init of [] \<Rightarrow> [] | c # cs \<Rightarrow> if c = CHR ''?'' then cs else c # cs))))"

text \<open>\<^verbatim>\<open>URLSearchParams.get\<close>: the value of the first pair with the name, or \<^verbatim>\<open>null\<close>.\<close>

fun URLSearchParams_get :: "(ustring \<times> ustring) list \<Rightarrow> string \<Rightarrow> ustring option" where
  "URLSearchParams_get [] name = None"
| "URLSearchParams_get ((n, v) # ps) name =
     (if n = ustr name then Some v else URLSearchParams_get ps name)"

section \<open>The document\<close>

text \<open>
  A DOM node is a text node or an element with its tag, its class list, its id (if it
  has one) and its children.
\<close>

datatype node =
    TextNode string
  | Element string "string list" "string option" "node list"

text \<open>\<^verbatim>\<open>classList.add\<close>: the token is added unless the list has it.\<close>

definition classList_add :: "string \<Rightarrow> string list \<Rightarrow> string list" where
  "classList_add c cl = (if c \<in> set cl then cl else cl @ [c])"

text \<open>
  A JavaScript value as the script uses it: \<^verbatim>\<open>undefined\<close>, \<^verbatim>\<open>null\<close>, a string, or
  any other value, given by its truthiness and by the string that \<^verbatim>\<open>ToString\<close> makes
  of it.
\<close>

datatype jsval = Undefined | Null | Str string | Other bool string

definition ToBoolean :: "jsval \<Rightarrow> bool" where
  "ToBoolean v =
     (case v of Undefined \<Rightarrow> False | Null \<Rightarrow> False | Str s \<Rightarrow> s \<noteq> [] | Other b _ \<Rightarrow> b)"

definition ToString :: "jsval \<Rightarrow> string" where
  "ToString v =
     (case v of
        Undefined \<Rightarrow> ''undefined''
      | Null \<Rightarrow> ''null''
      | Str s \<Rightarrow> s
      | Other _ s \<Rightarrow> s)"

text \<open>
  Setting \<^verbatim>\<open>textContent\<close> (a nullable DOMString: \<^verbatim>\<open>undefined\<close> and \<^verbatim>\<open>null\<close> are the
  empty string) replaces the children by one text node, or by nothing when the string
  is empty.
\<close>

definition textContent_set :: "jsval \<Rightarrow> node list" where
  "textContent_set v =
     (let s = (case v of Undefined \<Rightarrow> [] | Null \<Rightarrow> [] | _ \<Rightarrow> ToString v)
      in if s = [] then [] else [TextNode s])"

text \<open>The number of elements with the id in a forest.\<close>

fun countId :: "string \<Rightarrow> node list \<Rightarrow> nat" where
  "countId i [] = 0"
| "countId i (TextNode t # ns) = countId i ns"
| "countId i (Element tg cl eid ks # ns) =
     (if eid = Some i then 1 else 0) + countId i ks + countId i ns"

text \<open>
  \<^verbatim>\<open>getElementById(i)\<close> followed by \<^verbatim>\<open>remove()\<close>: the first element with the id in
  tree order is taken out of the forest; \<open>None\<close> when no element has the id.
\<close>

fun removeById :: "string \<Rightarrow> node list \<Rightarrow> node list option" where
  "removeById i [] = None"
| "removeById i (TextNode t # ns) = map_option ((#) (TextNode t)) (removeById i ns)"
| "removeById i (Element tg cl eid ks # ns) =
     (if eid = Some i then Some ns
      else (case removeById i ks of
              Some ks' \<Rightarrow> Some (Element tg cl eid ks' # ns)
            | None \<Rightarrow> map_option ((#) (Element tg cl eid ks)) (removeById i ns)))"

section \<open>The side panel\<close>

text \<open>
  A tab as \<^verbatim>\<open>chrome.tabs\<close> reports it: its URL, absent when the extension may not
  read it, and whether it is the active tab of its window.
\<close>

record tab =
  url :: "string option"
  active :: bool

text \<open>
  One call of \<^verbatim>\<open>fetch\<close>: the address, the method, the headers and the object whose
  JSON serialisation is the body, its keys in the order of the source.
\<close>

record request =
  address :: string
  httpMethod :: string
  headers :: "(string \<times> string) list"
  body :: "(string \<times> ustring) list"

text \<open>
  The state of the panel: the variable \<^verbatim>\<open>currentVideoId\<close> of the closure
  (\<open>None\<close> is \<^verbatim>\<open>null\<close>), the properties of the four elements that the script reads or
  writes, the calls of \<^verbatim>\<open>fetch\<close> made so far, and the number of activations of
  \<^verbatim>\<open>handleSend\<close> that wait for their response. \<open>input_focused\<close> says that the input
  field has the focus: a disabled control cannot have it. The scroll position of the
  chat history depends on the layout and is not modelled.
\<close>

record panel =
  currentVideoId :: "ustring option"
  status_textContent :: string
  status_className :: string
  input_value :: string
  input_disabled :: bool
  input_focused :: bool
  send_disabled :: bool
  chatHistory :: "node list"
  fetchCalls :: "request list"
  outstanding :: nat

text \<open>
  The children that \<^verbatim>\<open>chatHistory.innerHTML = `...`\<close> of \<^verbatim>\<open>connectToCurrentTab\<close>
  parses: the greeting element between the white space of the template.
\<close>

definition greetingText :: string where
  "greetingText =
     ''\<newline>              Hello! I'' @ [CHR 0x27] @
     ''m ready to answer questions about this video.\<newline>            ''"

definition greetingElement :: node where
  "greetingElement =
     Element ''div'' [''message'', ''bot-message''] None [TextNode greetingText]"

definition greetingHTML :: "node list" where
  "greetingHTML =
     [TextNode ''\<newline>            '', greetingElement, TextNode ''\<newline>          '']"

text \<open>
  \<^verbatim>\<open>handleDisconnect(reason)\<close>. Disabling the input field takes the focus from it.
\<close>

definition handleDisconnect :: "string \<Rightarrow> panel \<Rightarrow> panel" where
  "handleDisconnect reason p =
     p\<lparr>currentVideoId := None,
       status_textContent := reason,
       status_className := ''status error'',
       input_disabled := True,
       input_focused := False,
       send_disabled := True\<rparr>"

text \<open>
  \<^verbatim>\<open>connectToCurrentTab()\<close>, from the point where \<^verbatim>\<open>chrome.tabs.query\<close> has answered:
  \<open>t\<close> is the first tab of the answer, \<open>None\<close> when the answer is empty. When
  \<^verbatim>\<open>new URL\<close> throws, the function ends there and has changed nothing.
\<close>

definition connectToCurrentTab :: "tab option \<Rightarrow> panel \<Rightarrow> panel" where
  "connectToCurrentTab t p =
     (case t of
        None \<Rightarrow> handleDisconnect ''Not YouTube'' p
      | Some tb \<Rightarrow>
          if truthy (url tb) \<and> String_includes (the (url tb)) ''youtube.com/watch'' then
            (case URL_search (the (url tb)) of
               None \<Rightarrow> p
             | Some search \<Rightarrow>
                 (let videoId = URLSearchParams_get (URLSearchParams search) ''v'' in
                  if truthy videoId then
                    (if videoId \<noteq> currentVideoId p then
                       p\<lparr>currentVideoId := videoId,
                         status_textContent := ''Connected'',
                         status_className := ''status connected'',
                         input_disabled := False,
                         send_disabled := False,
                         chatHistory := greetingHTML\<rparr>
                     else p)
                  else handleDisconnect ''No Video ID'' p))
          else handleDisconnect ''Not YouTube'' p)"

text \<open>\<^verbatim>\<open>appendMessage(text, sender)\<close>.\<close>

definition appendMessage :: "jsval \<Rightarrow> string \<Rightarrow> panel \<Rightarrow> panel" where
  "appendMessage text sender p =
     (let classes =
            classList_add (if sender = ''user'' then ''user-message'' else ''bot-message'')
              (classList_add ''message'' []);
          msgDiv = Element ''div'' classes None (textContent_set text)
      in p\<lparr>chatHistory := chatHistory p @ [msgDiv]\<rparr>)"

text \<open>\<^verbatim>\<open>appendLoading()\<close>: the placeholder, an element with the id \<open>loading-msg\<close>.\<close>

definition loadingElement :: node where
  "loadingElement =
     Element ''div'' (classList_add ''bot-message'' (classList_add ''message'' []))
       (Some ''loading-msg'')
       [Element ''span'' (classList_add ''loading-dots'' []) None
          (textContent_set (Str ''Thinking''))]"

definition appendLoading :: "panel \<Rightarrow> panel" where
  "appendLoading p = p\<lparr>chatHistory := chatHistory p @ [loadingElement]\<rparr>"

text \<open>
  \<^verbatim>\<open>removeLoading()\<close>. The script gives the id \<open>loading-msg\<close> to children of the chat
  history only, and the elements of the page's own markup (which is not among the
  sources) are taken to have other ids: \<^verbatim>\<open>getElementById\<close> is a search of the chat
  history, in tree order.
\<close>

definition removeLoading :: "panel \<Rightarrow> panel" where
  "removeLoading p =
     (case removeById ''loading-msg'' (chatHistory p) of
        None \<Rightarrow> p
      | Some ns \<Rightarrow> p\<lparr>chatHistory := ns\<rparr>)"

section \<open>Submitting a question\<close>

text \<open>
  How the request of \<^verbatim>\<open>handleSend\<close> ends. \<^verbatim>\<open>fetch\<close> rejects (the service cannot be
  reached), or it answers with a response: whether its status is a success
  (\<^verbatim>\<open>response.ok\<close>) and what \<^verbatim>\<open>response.json()\<close> makes of its body. The body is not
  JSON (\<^verbatim>\<open>json()\<close> rejects), or it is the JSON \<^verbatim>\<open>null\<close> (reading a property of it
  throws), or it is any other JSON value, of which the script reads the properties
  \<^verbatim>\<open>answer\<close> and \<^verbatim>\<open>error\<close>.
\<close>

datatype json_body = NotJSON | JSON_null | JSON_data jsval jsval

datatype fetch_result = Rejected | Response bool json_body

text \<open>The condition of the early \<^verbatim>\<open>return\<close> of \<^verbatim>\<open>handleSend\<close>.\<close>

definition handleSend_returns :: "panel \<Rightarrow> bool" where
  "handleSend_returns p = (trim (input_value p) = [] \<or> \<not> truthy (currentVideoId p))"

text \<open>The request that \<^verbatim>\<open>handleSend\<close> hands to \<^verbatim>\<open>fetch\<close>.\<close>

definition chatRequest :: "ustring \<Rightarrow> string \<Rightarrow> request" where
  "chatRequest videoId question =
     \<lparr>address = ''http://localhost:5000/chat'',
      httpMethod = ''POST'',
      headers = [(''Content-Type'', ''application/json'')],
      body = [(''video_id'', videoId), (''question'', ustr question)]\<rparr>"

text \<open>
  \<^verbatim>\<open>handleSend()\<close> up to its first \<^verbatim>\<open>await\<close>: the early return, or the user's message,
  the disabled controls, the placeholder and the call of \<^verbatim>\<open>fetch\<close>, after which the
  activation waits.
\<close>

definition handleSend_begin :: "panel \<Rightarrow> panel" where
  "handleSend_begin p =
     (let question = trim (input_value p) in
      if question = [] \<or> \<not> truthy (currentVideoId p) then p
      else
        (let p1 = appendMessage (Str question) ''user'' p;
             p2 = p1\<lparr>input_value := [],
                     input_disabled := True,
                     input_focused := False,
                     send_disabled := True\<rparr>;
             p3 = appendLoading p2
         in p3\<lparr>fetchCalls :=
                  fetchCalls p3 @ [chatRequest (the (currentVideoId p3)) question],
                outstanding := Suc (outstanding p3)\<rparr>))"

text \<open>
  The \<^verbatim>\<open>try\<close> block once the request has ended: \<open>Inl\<close> is an exception, with the
  state in which it was thrown, \<open>Inr\<close> is the end of the block.
\<close>

definition handleSend_try :: "fetch_result \<Rightarrow> panel \<Rightarrow> panel + panel" where
  "handleSend_try r p =
     (case r of
        Rejected \<Rightarrow> Inl p
      | Response ok b \<Rightarrow>
          (case b of
             NotJSON \<Rightarrow> Inl p
           | JSON_null \<Rightarrow> Inl (removeLoading p)
           | JSON_data answer err \<Rightarrow>
               (let p1 = removeLoading p in
                if ok then Inr (appendMessage answer ''bot'' p1)
                else
                  Inr (appendMessage
                         (Str (''Error: '' @
                               (if ToBoolean err then ToString err else ''Server error'')))
                         ''bot'' p1))))"

definition handleSend_catch :: "panel \<Rightarrow> panel" where
  "handleSend_catch p =
     appendMessage
       (Str ''Error: Could not connect to server. Make sure app.py is running.'')
       ''bot'' (removeLoading p)"

definition handleSend_finally :: "panel \<Rightarrow> panel" where
  "handleSend_finally p =
     p\<lparr>input_disabled := False, send_disabled := False, input_focused := True\<rparr>"

text \<open>\<^verbatim>\<open>handleSend()\<close> from the end of the request on: one waiting activation ends.\<close>

definition handleSend_resume :: "fetch_result \<Rightarrow> panel \<Rightarrow> panel" where
  "handleSend_resume r p =
     (let p1 = (case handleSend_try r p of Inl q \<Rightarrow> handleSend_catch q | Inr q \<Rightarrow> q);
          p2 = handleSend_finally p1
      in p2\<lparr>outstanding := outstanding p2 - 1\<rparr>)"

text \<open>
  \<^verbatim>\<open>handleSend()\<close> when nothing else runs while it waits: \<open>service\<close> says how the
  request ends.
\<close>

definition handleSend :: "(request \<Rightarrow> fetch_result) \<Rightarrow> panel \<Rightarrow> panel" where
  "handleSend service p =
     (if handleSend_returns p then p
      else handleSend_resume (service (last (fetchCalls (handleSend_begin p))))
             (handleSend_begin p))"

section \<open>Events\<close>

text \<open>
  What can happen to the panel. A run of \<^verbatim>\<open>connectToCurrentTab\<close> is started by the
  load of the panel, by \<^verbatim>\<open>chrome.tabs.onUpdated\<close> (with \<^verbatim>\<open>changeInfo.status\<close> and the
  updated tab) and by \<^verbatim>\<open>chrome.tabs.onActivated\<close>; each carries the answer of its
  \<^verbatim>\<open>chrome.tabs.query\<close>. The user edits the input field, clicks the send button or
  presses a key in the input field: a disabled control receives none of these. A
  request ends.
\<close>

datatype event =
    PanelLoaded "tab option"
  | TabUpdated "string option" tab "tab option"
  | TabActivated "tab option"
  | UserTypes string
  | SendClicked
  | KeyPressed string
  | FetchSettled fetch_result

definition step :: "event \<Rightarrow> panel \<Rightarrow> panel" where
  "step e p =
     (case e of
        PanelLoaded t \<Rightarrow> connectToCurrentTab t p
      | TabUpdated st tb t \<Rightarrow>
          if st = Some ''complete'' \<and> active tb then connectToCurrentTab t p else p
      | TabActivated t \<Rightarrow> connectToCurrentTab t p
      | UserTypes s \<Rightarrow> if input_disabled p then p else p\<lparr>input_value := s\<rparr>
      | SendClicked \<Rightarrow> if send_disabled p then p else handleSend_begin p
      | KeyPressed k \<Rightarrow>
          if input_disabled p then p
          else if k = ''Enter'' then handleSend_begin p else p
      | FetchSettled r \<Rightarrow> if outstanding p = 0 then p else handleSend_resume r p)"

fun run :: "event list \<Rightarrow> panel \<Rightarrow> panel" where
  "run [] p = p"
| "run (e # es) p = run es (step e p)"

text \<open>
  Modelled from the spec: the page's markup (\<^verbatim>\<open>sidepanel.html\<close>) is not among the
  sources. The panel before its first event: \<^verbatim>\<open>currentVideoId\<close> is \<^verbatim>\<open>null\<close> (line 7)
  and no request has been made; of the markup it is taken that the session starts
  disconnected, so the status line does not read \<open>Connected\<close>, and that the chat
  history holds no placeholder.
\<close>

definition initial :: "panel \<Rightarrow> bool" where
  "initial p =
     (currentVideoId p = None \<and> status_textContent p \<noteq> ''Connected'' \<and>
      countId ''loading-msg'' (chatHistory p) = 0 \<and>
      fetchCalls p = [] \<and> outstanding p = 0)"

inductive reachable :: "panel \<Rightarrow> bool" where
  reachable_initial: "initial p \<Longrightarrow> reachable p"
| reachable_step: "reachable p \<Longrightarrow> reachable (step e p)"

section \<open>The session\<close>

text \<open>
  The session that the panel shows: its video is \<^verbatim>\<open>currentVideoId\<close>, it is connected
  when the status line reads \<open>Connected\<close>, and otherwise the status line is the reason.
\<close>

datatype status = Connected | Disconnected string

definition Session_videoId :: "panel \<Rightarrow> ustring option" where
  "Session_videoId p = currentVideoId p"

definition Session_status :: "panel \<Rightarrow> status" where
  "Session_status p =
     (if status_textContent p = ''Connected'' then Connected
      else Disconnected (status_textContent p))"

text \<open>The input controls are enabled: the input field and the send button.\<close>

definition controlsEnabled :: "panel \<Rightarrow> bool" where
  "controlsEnabled p = (\<not> input_disabled p \<and> \<not> send_disabled p)"

definition controlsDisabled :: "panel \<Rightarrow> bool" where
  "controlsDisabled p = (input_disabled p \<and> send_disabled p)"

text \<open>
  The tab shows the video \<open>v\<close>: the conditions under which \<^verbatim>\<open>connectToCurrentTab\<close>
  reaches its test \<^verbatim>\<open>videoId !== currentVideoId\<close> with \<^verbatim>\<open>videoId\<close> = \<open>v\<close>.
\<close>

definition showsVideo :: "tab option \<Rightarrow> ustring \<Rightarrow> bool" where
  "showsVideo t v =
     (case t of
        None \<Rightarrow> False
      | Some tb \<Rightarrow>
          (case url tb of
             None \<Rightarrow> False
           | Some u \<Rightarrow>
               u \<noteq> [] \<and> String_includes u ''youtube.com/watch'' \<and>
               (case URL_search u of
                  None \<Rightarrow> False
                | Some search \<Rightarrow>
                    URLSearchParams_get (URLSearchParams search) ''v'' = Some v \<and> v \<noteq> [])))"

section \<open>Derived notions\<close>

text \<open>The number of placeholders that the chat history shows.\<close>

definition placeholders :: "panel \<Rightarrow> nat" where
  "placeholders p = countId ''loading-msg'' (chatHistory p)"

text \<open>
  What holds of the panel in every state it reaches: at most one placeholder is shown,
  and none unless a request is outstanding and both controls are disabled; the status
  line reads \<open>Connected\<close> exactly when \<^verbatim>\<open>currentVideoId\<close> is a video, and
  \<^verbatim>\<open>currentVideoId\<close> is never the empty string.
\<close>

definition panelInv :: "panel \<Rightarrow> bool" where
  "panelInv p =
     (placeholders p \<le> 1 \<and> placeholders p \<le> outstanding p \<and>
      (input_disabled p \<and> send_disabled p \<or> placeholders p = 0) \<and>
      (status_textContent p = ''Connected'') = truthy (currentVideoId p) \<and>
      currentVideoId p \<noteq> Some [])"

text \<open>
  The state after the assignments that \<^verbatim>\<open>connectToCurrentTab\<close> makes for a video
  other than the current one.
\<close>

definition connectedTo :: "ustring \<Rightarrow> panel \<Rightarrow> panel" where
  "connectedTo v p =
     p\<lparr>currentVideoId := Some v,
       status_textContent := ''Connected'',
       status_className := ''status connected'',
       input_disabled := False,
       send_disabled := False,
       chatHistory := greetingHTML\<rparr>"

text \<open>
  The value that \<^verbatim>\<open>handleSend\<close> passes to \<^verbatim>\<open>appendMessage\<close> as the bot's message,
  by how the request ended.
\<close>

definition replyOf :: "fetch_result \<Rightarrow> jsval" where
  "replyOf r =
     (case r of
        Rejected \<Rightarrow> Str ''Error: Could not connect to server. Make sure app.py is running.''
      | Response ok b \<Rightarrow>
          (case b of
             NotJSON \<Rightarrow> Str ''Error: Could not connect to server. Make sure app.py is running.''
           | JSON_null \<Rightarrow> Str ''Error: Could not connect to server. Make sure app.py is running.''
           | JSON_data answer err \<Rightarrow>
               if ok then answer
               else Str (''Error: '' @ (if ToBoolean err then ToString err else ''Server error''))))"

text \<open>The messages of the chat history: its children of class \<open>message\<close>.\<close>

fun isMessage :: "node \<Rightarrow> bool" where
  "isMessage (TextNode t) = False"
| "isMessage (Element tg cl eid ks) = (''message'' \<in> set cl)"

definition messages :: "node list \<Rightarrow> node list" where
  "messages ns = filter isMessage ns"

text \<open>
  The event connects the session to a video: after it \<^verbatim>\<open>currentVideoId\<close> is a video
  and is not what it was before. This is a reconciliation that takes the branch of
  lines 18 to 29, for a video that \<^verbatim>\<open>currentVideoId\<close> does not hold at that moment: a
  video other than the current one, or any video, also the one of before, once a
  disconnection has set \<^verbatim>\<open>currentVideoId\<close> to \<^verbatim>\<open>null\<close>.
\<close>

definition connectsSession :: "event \<Rightarrow> panel \<Rightarrow> bool" where
  "connectsSession e p =
     (currentVideoId (step e p) \<noteq> None \<and> currentVideoId (step e p) \<noteq> currentVideoId p)"

text \<open>
  A sequence of events in which no event connects the session to a video while a
  request is outstanding.
\<close>

fun undisturbed :: "event list \<Rightarrow> panel \<Rightarrow> bool" where
  "undisturbed [] p = True"
| "undisturbed (e # es) p =
     ((outstanding p = 0 \<or> \<not> connectsSession e p) \<and> undisturbed es (step e p))"

text \<open>At most one request is outstanding, and the controls are disabled while it is.\<close>

definition singleFlight :: "panel \<Rightarrow> bool" where
  "singleFlight p = (outstanding p \<le> 1 \<and> (outstanding p = 1 \<longrightarrow> controlsDisabled p))"

text \<open>An active tab at a URL, and a panel that has not yet seen an event.\<close>

definition tabAt :: "string \<Rightarrow> tab option" where
  "tabAt u = Some \<lparr>url = Some u, active = True\<rparr>"

definition blankPanel :: panel where
  "blankPanel =
     \<lparr>currentVideoId = None,
      status_textContent = [],
      status_className = ''status'',
      input_value = [],
      input_disabled = True,
      input_focused = False,
      send_disabled = True,
      chatHistory = [],
      fetchCalls = [],
      outstanding = 0\<rparr>"

section \<open>The chat history\<close>

lemma countId_append: "countId i (xs @ ys) = countId i xs + countId i ys"
  by (induction i xs rule: countId.induct) auto

lemma removeById_None: "countId i ns = 0 \<Longrightarrow> removeById i ns = None"
  by (induction i ns rule: removeById.induct) (auto split: if_splits)

lemma removeById_None_iff: "removeById i ns = None \<longleftrightarrow> countId i ns = 0"
  by (induction i ns rule: removeById.induct) (auto split: if_splits option.splits)

lemma removeById_Some_less: "removeById i ns = Some ms \<Longrightarrow> countId i ms < countId i ns"
  by (induction i ns arbitrary: ms rule: removeById.induct)
     (fastforce split: if_splits option.splits)+


lemma countId_loadingElement: "countId ''loading-msg'' [loadingElement] = 1"
  by (simp add: loadingElement_def classList_add_def textContent_set_def ToString_def)

lemma countId_greetingHTML: "countId ''loading-msg'' greetingHTML = 0"
  by (simp add: greetingHTML_def greetingElement_def)

lemma connect_showsVideo:
  "showsVideo t v \<Longrightarrow>
   connectToCurrentTab t p = (if currentVideoId p = Some v then p else connectedTo v p)"
  by (auto simp: showsVideo_def connectToCurrentTab_def connectedTo_def truthy_def
           split: option.splits)

lemma connect_cases:
  "connectToCurrentTab t p = p \<or>
   connectToCurrentTab t p = handleDisconnect ''Not YouTube'' p \<or>
   connectToCurrentTab t p = handleDisconnect ''No Video ID'' p \<or>
   (\<exists>v. v \<noteq> [] \<and> Some v \<noteq> currentVideoId p \<and> connectToCurrentTab t p = connectedTo v p)"
  by (auto simp: connectToCurrentTab_def connectedTo_def truthy_def Let_def
           split: option.splits)

lemma panelInv_handleDisconnect:
  "panelInv p \<Longrightarrow> reason \<noteq> ''Connected'' \<Longrightarrow> panelInv (handleDisconnect reason p)"
  by (simp add: panelInv_def handleDisconnect_def placeholders_def truthy_def)

lemma panelInv_connectedTo: "v \<noteq> [] \<Longrightarrow> panelInv (connectedTo v p)"
  by (simp add: panelInv_def connectedTo_def placeholders_def truthy_def countId_greetingHTML)

lemma panelInv_connect: "panelInv p \<Longrightarrow> panelInv (connectToCurrentTab t p)"
  using connect_cases [of t p]
  by (auto simp: panelInv_handleDisconnect panelInv_connectedTo)

lemma chatHistory_appendMessage:
  "chatHistory (appendMessage v sender p) =
     chatHistory p @
       [Element ''div''
          [''message'', if sender = ''user'' then ''user-message'' else ''bot-message'']
          None (textContent_set v)]"
  by (simp add: appendMessage_def classList_add_def Let_def)

lemma countId_textContent_set: "countId i (textContent_set v) = 0"
  by (simp add: textContent_set_def Let_def split: jsval.splits)

lemma placeholders_appendMessage: "placeholders (appendMessage v sender p) = placeholders p"
  by (simp add: placeholders_def chatHistory_appendMessage countId_append countId_textContent_set)

lemma placeholders_removeLoading_le: "placeholders (removeLoading p) \<le> placeholders p - 1"
  using removeById_Some_less [of "''loading-msg''" "chatHistory p"]
  by (auto simp: placeholders_def removeLoading_def removeById_None_iff split: option.splits)

lemma removeLoading_idle: "placeholders p = 0 \<Longrightarrow> removeLoading p = p"
  by (simp add: placeholders_def removeLoading_def removeById_None)

lemma handleSend_begin_idle: "handleSend_returns p \<Longrightarrow> handleSend_begin p = p"
  by (simp add: handleSend_begin_def handleSend_returns_def Let_def)

lemma chatHistory_handleSend_begin:
  "\<not> handleSend_returns p \<Longrightarrow>
   chatHistory (handleSend_begin p) =
     chatHistory p @
       [Element ''div'' [''message'', ''user-message''] None [TextNode (trim (input_value p))],
        loadingElement]"
  by (simp add: handleSend_begin_def handleSend_returns_def Let_def appendLoading_def
        chatHistory_appendMessage textContent_set_def ToString_def)

lemma handleSend_begin_fields:
  "\<not> handleSend_returns p \<Longrightarrow>
   input_disabled (handleSend_begin p) \<and> send_disabled (handleSend_begin p) \<and>
   input_value (handleSend_begin p) = [] \<and>
   currentVideoId (handleSend_begin p) = currentVideoId p \<and>
   status_textContent (handleSend_begin p) = status_textContent p \<and>
   outstanding (handleSend_begin p) = Suc (outstanding p) \<and>
   fetchCalls (handleSend_begin p) =
     fetchCalls p @ [chatRequest (the (currentVideoId p)) (trim (input_value p))]"
  by (simp add: handleSend_begin_def handleSend_returns_def Let_def appendLoading_def
        appendMessage_def)

lemma placeholders_handleSend_begin:
  "\<not> handleSend_returns p \<Longrightarrow> placeholders (handleSend_begin p) = Suc (placeholders p)"
  by (simp add: placeholders_def chatHistory_handleSend_begin countId_append
        countId_loadingElement [simplified])

lemma panelInv_handleSend_begin:
  "panelInv p \<Longrightarrow> \<not> input_disabled p \<or> \<not> send_disabled p \<Longrightarrow> panelInv (handleSend_begin p)"
  by (cases "handleSend_returns p")
     (auto simp: panelInv_def handleSend_begin_idle placeholders_handleSend_begin
        handleSend_begin_fields)

lemma removeLoading_fields:
  "currentVideoId (removeLoading p) = currentVideoId p \<and>
   status_textContent (removeLoading p) = status_textContent p \<and>
   status_className (removeLoading p) = status_className p \<and>
   input_value (removeLoading p) = input_value p \<and>
   fetchCalls (removeLoading p) = fetchCalls p \<and>
   outstanding (removeLoading p) = outstanding p"
  by (simp add: removeLoading_def split: option.splits)

lemma appendMessage_fields:
  "currentVideoId (appendMessage v s p) = currentVideoId p \<and>
   status_textContent (appendMessage v s p) = status_textContent p \<and>
   status_className (appendMessage v s p) = status_className p \<and>
   input_value (appendMessage v s p) = input_value p \<and>
   fetchCalls (appendMessage v s p) = fetchCalls p \<and>
   outstanding (appendMessage v s p) = outstanding p"
  by (simp add: appendMessage_def Let_def)

lemma removeLoading_twice: "placeholders p \<le> 1 \<Longrightarrow> removeLoading (removeLoading p) = removeLoading p"
  using placeholders_removeLoading_le [of p] by (simp add: removeLoading_idle)

lemma handleSend_resume_eq:
  "placeholders p \<le> 1 \<Longrightarrow>
   handleSend_resume r p =
     (appendMessage (replyOf r) ''bot'' (removeLoading p))
       \<lparr>input_disabled := False, send_disabled := False, input_focused := True,
        outstanding := outstanding p - 1\<rparr>"
  by (simp add: handleSend_resume_def handleSend_try_def handleSend_catch_def
        handleSend_finally_def replyOf_def Let_def removeLoading_twice
        appendMessage_fields removeLoading_fields
      split: fetch_result.splits json_body.splits)

lemma handleSend_resume_controls:
  "\<not> input_disabled (handleSend_resume r p) \<and> \<not> send_disabled (handleSend_resume r p) \<and>
   input_focused (handleSend_resume r p)"
  by (simp add: handleSend_resume_def handleSend_finally_def Let_def)

lemma handleSend_resume_fields:
  "currentVideoId (handleSend_resume r p) = currentVideoId p \<and>
   status_textContent (handleSend_resume r p) = status_textContent p \<and>
   fetchCalls (handleSend_resume r p) = fetchCalls p \<and>
   outstanding (handleSend_resume r p) = outstanding p - 1"
  by (simp add: handleSend_resume_def handleSend_try_def handleSend_catch_def
        handleSend_finally_def Let_def appendMessage_fields removeLoading_fields
      split: fetch_result.splits json_body.splits sum.splits)

lemma placeholders_handleSend_resume:
  "placeholders p \<le> 1 \<Longrightarrow> placeholders (handleSend_resume r p) = 0"
  using placeholders_removeLoading_le [of p]
  by (simp add: handleSend_resume_eq)
     (simp add: placeholders_def chatHistory_appendMessage countId_append countId_textContent_set)

lemma panelInv_handleSend_resume: "panelInv p \<Longrightarrow> panelInv (handleSend_resume r p)"
  by (simp add: panelInv_def placeholders_handleSend_resume handleSend_resume_fields
        handleSend_resume_controls)

lemma panelInv_initial: "initial p \<Longrightarrow> panelInv p"
  by (simp add: initial_def panelInv_def placeholders_def truthy_def)

lemma panelInv_input_value: "panelInv (p\<lparr>input_value := s\<rparr>) = panelInv p"
  by (simp add: panelInv_def placeholders_def)

lemma panelInv_step: "panelInv p \<Longrightarrow> panelInv (step e p)"
  by (cases e)
     (simp_all add: step_def panelInv_connect panelInv_handleSend_begin
        panelInv_handleSend_resume panelInv_input_value)

lemma reachable_panelInv: "reachable p \<Longrightarrow> panelInv p"
  by (induction rule: reachable.induct) (simp_all add: panelInv_initial panelInv_step)

lemma reachable_run: "reachable p \<Longrightarrow> reachable (run es p)"
  by (induction es arbitrary: p) (simp_all add: reachable_step)

section \<open>The tab monitor\<close>

lemma fold_connect_same:
  "\<forall>t\<in>set ts. showsVideo t v \<Longrightarrow> currentVideoId p = Some v \<Longrightarrow>
   fold connectToCurrentTab ts p = p"
  by (induction ts) (auto simp: connect_showsVideo)

text \<open>
  C1. Reconciliation is idempotent on an unchanged video. For every sequence of runs of
  \<^verbatim>\<open>connectToCurrentTab\<close> that all observe a tab showing the video \<open>v\<close>: when \<open>v\<close> is
  the session's current video, the whole state of the panel (the session and the chat
  history) is as it was before; and from any state, the sequence leaves the panel as
  its first run left it, so the chat history is cleared at most once, by the first run.
\<close>

theorem reconcile_same_video_idempotent:
  assumes "\<forall>t\<in>set ts. showsVideo t v"
  shows "(Session_videoId p = Some v \<longrightarrow> fold connectToCurrentTab ts p = p) \<and>
         (showsVideo t0 v \<longrightarrow>
            fold connectToCurrentTab (t0 # ts) p = connectToCurrentTab t0 p)"
proof (intro conjI impI)
  assume "Session_videoId p = Some v"
  with assms show "fold connectToCurrentTab ts p = p"
    by (simp add: Session_videoId_def fold_connect_same)
next
  assume t0: "showsVideo t0 v"
  have "currentVideoId (connectToCurrentTab t0 p) = Some v"
    by (simp add: connect_showsVideo [OF t0] connectedTo_def)
  with assms show "fold connectToCurrentTab (t0 # ts) p = connectToCurrentTab t0 p"
    by (simp add: fold_connect_same)
qed

theorem reconcile_same_video_idempotent_witness:
  "fold connectToCurrentTab
     [tabAt ''https://www.youtube.com/watch?v=abc123'',
      tabAt ''https://www.youtube.com/watch?v=abc123&t=10s'']
     (connectedTo (ustr ''abc123'') blankPanel) = connectedTo (ustr ''abc123'') blankPanel \<and>
   fold connectToCurrentTab
     [tabAt ''https://www.youtube.com/watch?v=abc123'',
      tabAt ''https://www.youtube.com/watch?v=abc123'',
      tabAt ''https://www.youtube.com/watch?v=abc123&t=10s'']
     blankPanel =
   connectToCurrentTab (tabAt ''https://www.youtube.com/watch?v=abc123'') blankPanel"
proof -
  have a: "showsVideo (tabAt ''https://www.youtube.com/watch?v=abc123'') (ustr ''abc123'')"
    by code_simp
  have b: "showsVideo (tabAt ''https://www.youtube.com/watch?v=abc123&t=10s'') (ustr ''abc123'')"
    by code_simp
  have all: "\<forall>t\<in>set [tabAt ''https://www.youtube.com/watch?v=abc123'',
                     tabAt ''https://www.youtube.com/watch?v=abc123&t=10s'']. showsVideo t (ustr ''abc123'')"
    using a b by simp
  have c: "Session_videoId (connectedTo (ustr ''abc123'') blankPanel) = Some (ustr ''abc123'')"
    by (simp add: Session_videoId_def connectedTo_def)
  show ?thesis
    using reconcile_same_video_idempotent [OF all, of "connectedTo (ustr ''abc123'') blankPanel"
        "tabAt ''https://www.youtube.com/watch?v=abc123''"]
      reconcile_same_video_idempotent [OF all, of blankPanel
        "tabAt ''https://www.youtube.com/watch?v=abc123''"] a c
    by blast
qed

declare String_includes.simps [simp del]

lemma connect_no_video:
  assumes "url tb = Some u" "u \<noteq> []" "String_includes u ''youtube.com/watch''"
    and "URL_search u = Some s"
    and "\<not> truthy (URLSearchParams_get (URLSearchParams s) ''v'')"
  shows "connectToCurrentTab (Some tb) p = handleDisconnect ''No Video ID'' p"
  using assms by (simp add: connectToCurrentTab_def truthy_def Let_def)

lemma connect_not_youtube:
  assumes "t = None \<or> \<not> truthy (url (the t)) \<or>
           \<not> String_includes (the (url (the t))) ''youtube.com/watch''"
  shows "connectToCurrentTab t p = handleDisconnect ''Not YouTube'' p"
  using assms by (auto simp: connectToCurrentTab_def split: option.splits)

lemma handleDisconnect_session:
  "reason \<noteq> ''Connected'' \<Longrightarrow>
   Session_status (handleDisconnect reason p) = Disconnected reason \<and>
   Session_videoId (handleDisconnect reason p) = None \<and>
   controlsDisabled (handleDisconnect reason p)"
  by (simp add: Session_status_def Session_videoId_def controlsDisabled_def
        handleDisconnect_def)

lemma connectedTo_session:
  "Session_videoId (connectedTo v p) = Some v \<and>
   Session_status (connectedTo v p) = Connected \<and>
   chatHistory (connectedTo v p) = greetingHTML \<and>
   controlsEnabled (connectedTo v p)"
  by (simp add: Session_status_def Session_videoId_def controlsEnabled_def connectedTo_def)

lemma messages_greetingHTML:
  "messages greetingHTML =
     [Element ''div'' [''message'', ''bot-message''] None [TextNode greetingText]]"
  by (simp add: messages_def greetingHTML_def greetingElement_def)

text \<open>
  The video identifier is the decoded value of the parameter: percent-escapes are bytes
  of UTF-8, and bytes that are not UTF-8 are U+FFFD. So \<open>v=%FF\<close> and \<open>v=%FE\<close> name
  the same video, and a reconciliation from the one to the other changes nothing.
\<close>

lemma URLSearchParams_utf8:
  "URLSearchParams_get (URLSearchParams ''?v=%FF'') ''v'' = Some [0xFFFD]"
  "URLSearchParams_get (URLSearchParams ''?v=%FE'') ''v'' = Some [0xFFFD]"
  "URLSearchParams_get (URLSearchParams ''?v=caf%C3%A9'') ''v'' = Some (ustr ''caf'' @ [0xE9])"
  "URLSearchParams_get (URLSearchParams (''?v=caf'' @ [CHR 0xE9])) ''v'' =
     Some (ustr ''caf'' @ [0xE9])"
  "URLSearchParams_get (URLSearchParams ''?v=%F0%9F%98%80&t=1'') ''v'' = Some [0xD83D, 0xDE00]"
  "URLSearchParams_get (URLSearchParams ''?v=%E2%82'') ''v'' = Some [0xFFFD]"
  "URLSearchParams_get (URLSearchParams ''?%76=a+b%2Bc'') ''v'' = Some (ustr ''a b+c'')"
  by code_simp+

lemma reconcile_replacement_character:
  "connectToCurrentTab (tabAt ''https://www.youtube.com/watch?v=%FE'')
     (connectToCurrentTab (tabAt ''https://www.youtube.com/watch?v=%FF'') blankPanel) =
   connectToCurrentTab (tabAt ''https://www.youtube.com/watch?v=%FF'') blankPanel"
proof -
  have a: "showsVideo (tabAt ''https://www.youtube.com/watch?v=%FF'') [0xFFFD]"
    by code_simp
  have b: "showsVideo (tabAt ''https://www.youtube.com/watch?v=%FE'') [0xFFFD]"
    by code_simp
  show ?thesis
    by (simp add: connect_showsVideo [OF a] connect_showsVideo [OF b] connectedTo_def)
qed

text \<open>
  C2. A reconciliation that observes a tab showing a video \<open>v\<close> other than the
  session's current video connects the session to \<open>v\<close>, replaces the chat history by
  the greeting markup, whose only message is the bot's greeting, and enables the input
  field and the send button.
\<close>

theorem reconcile_new_video:
  assumes "showsVideo t v" and "Session_videoId p \<noteq> Some v"
  shows "Session_videoId (connectToCurrentTab t p) = Some v \<and>
         Session_status (connectToCurrentTab t p) = Connected \<and>
         chatHistory (connectToCurrentTab t p) = greetingHTML \<and>
         messages (chatHistory (connectToCurrentTab t p)) =
           [Element ''div'' [''message'', ''bot-message''] None [TextNode greetingText]] \<and>
         controlsEnabled (connectToCurrentTab t p)"
  using assms
  by (simp add: connect_showsVideo Session_videoId_def [of p] connectedTo_session
        messages_greetingHTML)

theorem reconcile_new_video_witness:
  "Session_videoId
     (connectToCurrentTab (tabAt ''https://www.youtube.com/watch?v=abc123'') blankPanel) =
     Some (ustr ''abc123'') \<and>
   Session_status
     (connectToCurrentTab (tabAt ''https://www.youtube.com/watch?v=abc123'') blankPanel) =
     Connected \<and>
   chatHistory
     (connectToCurrentTab (tabAt ''https://www.youtube.com/watch?v=abc123'') blankPanel) =
     greetingHTML \<and>
   controlsEnabled
     (connectToCurrentTab (tabAt ''https://www.youtube.com/watch?v=abc123'') blankPanel) \<and>
   Session_videoId
     (connectToCurrentTab (tabAt ''https://www.youtube.com/watch?v=caf%C3%A9'')
        (connectedTo (ustr ''abc123'') blankPanel)) = Some (ustr ''caf'' @ [0xE9]) \<and>
   chatHistory
     (connectToCurrentTab (tabAt ''https://www.youtube.com/watch?v=caf%C3%A9'')
        (connectedTo (ustr ''abc123'') blankPanel)) = greetingHTML"
proof -
  have a: "showsVideo (tabAt ''https://www.youtube.com/watch?v=abc123'') (ustr ''abc123'')"
    by code_simp
  have b: "Session_videoId blankPanel \<noteq> Some (ustr ''abc123'')"
    by (simp add: Session_videoId_def blankPanel_def)
  have c: "showsVideo (tabAt ''https://www.youtube.com/watch?v=caf%C3%A9'')
      (ustr ''caf'' @ [0xE9])"
    by code_simp
  have d: "Session_videoId (connectedTo (ustr ''abc123'') blankPanel) \<noteq>
      Some (ustr ''caf'' @ [0xE9])"
    by (simp add: Session_videoId_def connectedTo_def ustr_def)
  show ?thesis
    using reconcile_new_video [OF a b] reconcile_new_video [OF c d] by simp
qed

text \<open>
  C6. A reconciliation whose tab has a URL that contains \<open>youtube.com/watch\<close> and whose
  query has no parameter \<open>v\<close> disconnects the session with the reason
  \<open>No Video ID\<close>; one that finds no tab, no URL, or a URL that does not contain
  \<open>youtube.com/watch\<close>, such as \<open>https://example.com\<close>, disconnects it with the reason
  \<open>Not YouTube\<close>. In both cases the input field and the send button are disabled.
\<close>

theorem reconcile_disconnects:
  "(url tb = Some u \<and> u \<noteq> [] \<and> String_includes u ''youtube.com/watch'' \<and>
    URL_search u = Some s \<and> URLSearchParams_get (URLSearchParams s) ''v'' = None \<longrightarrow>
      Session_status (connectToCurrentTab (Some tb) p) = Disconnected ''No Video ID'' \<and>
      controlsDisabled (connectToCurrentTab (Some tb) p)) \<and>
   (t = None \<or> \<not> truthy (url (the t)) \<or>
    \<not> String_includes (the (url (the t))) ''youtube.com/watch'' \<longrightarrow>
      Session_status (connectToCurrentTab t p) = Disconnected ''Not YouTube'' \<and>
      controlsDisabled (connectToCurrentTab t p)) \<and>
   Session_status (connectToCurrentTab (tabAt ''https://example.com'') p) =
     Disconnected ''Not YouTube'' \<and>
   controlsDisabled (connectToCurrentTab (tabAt ''https://example.com'') p)"
proof (intro conjI impI)
  assume a: "url tb = Some u \<and> u \<noteq> [] \<and> String_includes u ''youtube.com/watch'' \<and>
    URL_search u = Some s \<and> URLSearchParams_get (URLSearchParams s) ''v'' = None"
  then have "connectToCurrentTab (Some tb) p = handleDisconnect ''No Video ID'' p"
    by (intro connect_no_video [of tb u s]) (simp_all add: truthy_def)
  then show "Session_status (connectToCurrentTab (Some tb) p) = Disconnected ''No Video ID''"
    and "controlsDisabled (connectToCurrentTab (Some tb) p)"
    by (simp_all add: handleDisconnect_session)
next
  assume "t = None \<or> \<not> truthy (url (the t)) \<or>
    \<not> String_includes (the (url (the t))) ''youtube.com/watch''"
  then have "connectToCurrentTab t p = handleDisconnect ''Not YouTube'' p"
    by (rule connect_not_youtube)
  then show "Session_status (connectToCurrentTab t p) = Disconnected ''Not YouTube''"
    and "controlsDisabled (connectToCurrentTab t p)"
    by (simp_all add: handleDisconnect_session)
next
  have "\<not> String_includes ''https://example.com'' ''youtube.com/watch''"
    by code_simp
  then have "connectToCurrentTab (tabAt ''https://example.com'') p =
      handleDisconnect ''Not YouTube'' p"
    by (intro connect_not_youtube) (simp add: tabAt_def)
  then show "Session_status (connectToCurrentTab (tabAt ''https://example.com'') p) =
      Disconnected ''Not YouTube''"
    and "controlsDisabled (connectToCurrentTab (tabAt ''https://example.com'') p)"
    by (simp_all add: handleDisconnect_session)
qed

theorem reconcile_disconnects_witness:
  "Session_status
     (connectToCurrentTab (tabAt ''https://www.youtube.com/watch'') blankPanel) =
     Disconnected ''No Video ID'' \<and>
   controlsDisabled
     (connectToCurrentTab (tabAt ''https://www.youtube.com/watch'') blankPanel) \<and>
   Session_status (connectToCurrentTab None blankPanel) = Disconnected ''Not YouTube'' \<and>
   controlsDisabled (connectToCurrentTab None blankPanel)"
proof -
  have a: "String_includes ''https://www.youtube.com/watch'' ''youtube.com/watch''"
    by code_simp
  have b: "URL_search ''https://www.youtube.com/watch'' = Some []"
    by code_simp
  have c: "URLSearchParams_get (URLSearchParams []) ''v'' = None"
    by code_simp
  show ?thesis
    using reconcile_disconnects
      [of "\<lparr>url = Some ''https://www.youtube.com/watch'', active = True\<rparr>"
          "''https://www.youtube.com/watch''" "[]" blankPanel None] a b c
    by (simp add: tabAt_def)
qed

text \<open>
  C10. A tab whose URL contains \<open>youtube.com/watch\<close> and whose parameter \<open>v\<close> is
  present and empty, such as \<open>https://www.youtube.com/watch?v=\<close>, is treated as a
  tab with no video: the reconciliation disconnects the session with the reason
  \<open>No Video ID\<close> and leaves \<^verbatim>\<open>currentVideoId\<close> at \<^verbatim>\<open>null\<close>, it does not connect it to the
  empty video identifier.
\<close>

theorem reconcile_empty_video_id:
  "(url tb = Some u \<and> u \<noteq> [] \<and> String_includes u ''youtube.com/watch'' \<and>
    URL_search u = Some s \<and> URLSearchParams_get (URLSearchParams s) ''v'' = Some [] \<longrightarrow>
      connectToCurrentTab (Some tb) p = handleDisconnect ''No Video ID'' p \<and>
      Session_status (connectToCurrentTab (Some tb) p) = Disconnected ''No Video ID'' \<and>
      Session_videoId (connectToCurrentTab (Some tb) p) = None) \<and>
   URLSearchParams_get
     (URLSearchParams (the (URL_search ''https://www.youtube.com/watch?v=''))) ''v'' =
     Some [] \<and>
   connectToCurrentTab (tabAt ''https://www.youtube.com/watch?v='') p =
     handleDisconnect ''No Video ID'' p"
proof (intro conjI impI)
  assume a: "url tb = Some u \<and> u \<noteq> [] \<and> String_includes u ''youtube.com/watch'' \<and>
    URL_search u = Some s \<and> URLSearchParams_get (URLSearchParams s) ''v'' = Some []"
  then show eq: "connectToCurrentTab (Some tb) p = handleDisconnect ''No Video ID'' p"
    by (intro connect_no_video [of tb u s]) (simp_all add: truthy_def)
  show "Session_status (connectToCurrentTab (Some tb) p) = Disconnected ''No Video ID''"
    and "Session_videoId (connectToCurrentTab (Some tb) p) = None"
    by (simp_all add: eq handleDisconnect_session)
next
  show "URLSearchParams_get
     (URLSearchParams (the (URL_search ''https://www.youtube.com/watch?v=''))) ''v'' =
     Some []"
    by code_simp
next
  have a: "String_includes ''https://www.youtube.com/watch?v='' ''youtube.com/watch''"
    by code_simp
  have b: "URL_search ''https://www.youtube.com/watch?v='' = Some ''?v=''"
    by code_simp
  have c: "URLSearchParams_get (URLSearchParams ''?v='') ''v'' = Some []"
    by code_simp
  show "connectToCurrentTab (tabAt ''https://www.youtube.com/watch?v='') p =
     handleDisconnect ''No Video ID'' p"
    unfolding tabAt_def
    by (rule connect_no_video [of _ "''https://www.youtube.com/watch?v=''" "''?v=''"])
       (simp_all add: a b c truthy_def)
qed

theorem reconcile_empty_video_id_witness:
  "connectToCurrentTab (Some \<lparr>url = Some ''https://www.youtube.com/watch?v=&t=5'', active = True\<rparr>)
     (connectedTo (ustr ''abc123'') blankPanel) =
   handleDisconnect ''No Video ID'' (connectedTo (ustr ''abc123'') blankPanel) \<and>
   Session_videoId
     (connectToCurrentTab (Some \<lparr>url = Some ''https://www.youtube.com/watch?v=&t=5'', active = True\<rparr>)
        (connectedTo (ustr ''abc123'') blankPanel)) = None"
proof -
  have a: "String_includes ''https://www.youtube.com/watch?v=&t=5'' ''youtube.com/watch''"
    by code_simp
  have b: "URL_search ''https://www.youtube.com/watch?v=&t=5'' = Some ''?v=&t=5''"
    by code_simp
  have c: "URLSearchParams_get (URLSearchParams ''?v=&t=5'') ''v'' = Some []"
    by code_simp
  have h: "url \<lparr>url = Some ''https://www.youtube.com/watch?v=&t=5'', active = True\<rparr> =
        Some ''https://www.youtube.com/watch?v=&t=5'' \<and>
      ''https://www.youtube.com/watch?v=&t=5'' \<noteq> [] \<and>
      String_includes ''https://www.youtube.com/watch?v=&t=5'' ''youtube.com/watch'' \<and>
      URL_search ''https://www.youtube.com/watch?v=&t=5'' = Some ''?v=&t=5'' \<and>
      URLSearchParams_get (URLSearchParams ''?v=&t=5'') ''v'' = Some []"
    using a b c by simp
  show ?thesis
    using reconcile_empty_video_id
      [of "\<lparr>url = Some ''https://www.youtube.com/watch?v=&t=5'', active = True\<rparr>"
          "''https://www.youtube.com/watch?v=&t=5''" "''?v=&t=5''"
          "connectedTo (ustr ''abc123'') blankPanel"] h
    by blast
qed

section \<open>The chat session controller\<close>

lemma reachable_blankPanel: "reachable (run es blankPanel)"
  by (rule reachable_run, rule reachable_initial)
     (simp add: initial_def blankPanel_def)

lemma disconnected_no_video:
  assumes "reachable p" and "Session_status p \<noteq> Connected"
  shows "currentVideoId p = None"
proof -
  have "panelInv p" using assms(1) by (rule reachable_panelInv)
  moreover have "status_textContent p \<noteq> ''Connected''"
    using assms(2) by (auto simp: Session_status_def split: if_splits)
  ultimately show ?thesis
    by (cases "currentVideoId p") (auto simp: panelInv_def truthy_def)
qed


lemma handleSend_idle: "handleSend_returns p \<Longrightarrow> handleSend service p = p"
  by (simp add: handleSend_def)



lemma chatHistory_handleSend_resume:
  "placeholders q \<le> 1 \<Longrightarrow>
   chatHistory (handleSend_resume r q) =
     chatHistory (removeLoading q) @
       [Element ''div'' [''message'', ''bot-message''] None (textContent_set (replyOf r))]"
  by (simp add: handleSend_resume_eq chatHistory_appendMessage)



text \<open>
  C7. \<^verbatim>\<open>handleSend\<close> does nothing when its guard fails. When the question is empty
  after trimming, when \<^verbatim>\<open>currentVideoId\<close> is \<^verbatim>\<open>null\<close>, and in every state the panel
  reaches in which the session is not connected, the state after \<^verbatim>\<open>handleSend\<close> is
  the state before it: no message, no placeholder, no call of \<^verbatim>\<open>fetch\<close>. The function
  makes the test itself; it holds of a click and of the Enter key as well.
\<close>

theorem handleSend_guard_noop:
  "(trim (input_value p) = [] \<longrightarrow> handleSend_begin p = p \<and> handleSend service p = p) \<and>
   (Session_videoId p = None \<longrightarrow> handleSend_begin p = p \<and> handleSend service p = p) \<and>
   (reachable p \<and> Session_status p \<noteq> Connected \<longrightarrow>
      handleSend_begin p = p \<and> handleSend service p = p \<and>
      step SendClicked p = p \<and> step (KeyPressed key) p = p)"
proof (intro conjI impI)
  assume "trim (input_value p) = []"
  then have "handleSend_returns p" by (simp add: handleSend_returns_def)
  then show "handleSend_begin p = p" and "handleSend service p = p"
    by (simp_all add: handleSend_begin_idle handleSend_idle)
next
  assume "Session_videoId p = None"
  then have "handleSend_returns p"
    by (simp add: handleSend_returns_def Session_videoId_def truthy_def)
  then show "handleSend_begin p = p" and "handleSend service p = p"
    by (simp_all add: handleSend_begin_idle handleSend_idle)
next
  assume "reachable p \<and> Session_status p \<noteq> Connected"
  then have "currentVideoId p = None" by (simp add: disconnected_no_video)
  then have "handleSend_returns p"
    by (simp add: handleSend_returns_def truthy_def)
  then show "handleSend_begin p = p" and "handleSend service p = p"
    and "step SendClicked p = p" and "step (KeyPressed key) p = p"
    by (simp_all add: handleSend_begin_idle handleSend_idle step_def)
qed

theorem handleSend_guard_noop_witness:
  "handleSend_begin (connectedTo (ustr ''abc123'') blankPanel\<lparr>input_value := ''   ''\<rparr>) =
     connectedTo (ustr ''abc123'') blankPanel\<lparr>input_value := ''   ''\<rparr> \<and>
   handleSend (\<lambda>_. Rejected) (blankPanel\<lparr>input_value := ''hello''\<rparr>) =
     blankPanel\<lparr>input_value := ''hello''\<rparr> \<and>
   handleSend (\<lambda>_. Rejected)
     (run [PanelLoaded (tabAt ''https://example.com'')] blankPanel) =
     run [PanelLoaded (tabAt ''https://example.com'')] blankPanel"
proof -
  let ?q = "run [PanelLoaded (tabAt ''https://example.com'')] blankPanel"
  have a: "trim (input_value (connectedTo (ustr ''abc123'') blankPanel\<lparr>input_value := ''   ''\<rparr>)) = []"
    by code_simp
  have b: "Session_videoId (blankPanel\<lparr>input_value := ''hello''\<rparr>) = None"
    by (simp add: Session_videoId_def blankPanel_def)
  have c: "reachable ?q" by (rule reachable_blankPanel)
  have d: "Session_status ?q \<noteq> Connected" by code_simp
  show ?thesis
    using handleSend_guard_noop [of "connectedTo (ustr ''abc123'') blankPanel\<lparr>input_value := ''   ''\<rparr>"]
      handleSend_guard_noop [of "blankPanel\<lparr>input_value := ''hello''\<rparr>" "\<lambda>_. Rejected"]
      handleSend_guard_noop [of ?q "\<lambda>_. Rejected"] a b c d
    by blast
qed

text \<open>
  C8. A submission that passes the guard makes exactly one call of \<^verbatim>\<open>fetch\<close>: a
  \<open>POST\<close> to \<open>http://localhost:5000/chat\<close> whose body is the object with \<open>video_id\<close>,
  the session's video, and \<open>question\<close>, the trimmed text of the input field. The rest
  of \<^verbatim>\<open>handleSend\<close>, after the request has ended, makes no call.
\<close>

theorem handleSend_issues_one_request:
  assumes "trim (input_value p) \<noteq> []" and "Session_videoId p = Some v" and "v \<noteq> []"
  shows "fetchCalls (handleSend_begin p) =
           fetchCalls p @
             [\<lparr>address = ''http://localhost:5000/chat'',
               httpMethod = ''POST'',
               headers = [(''Content-Type'', ''application/json'')],
               body = [(''video_id'', v), (''question'', ustr (trim (input_value p)))]\<rparr>] \<and>
         fetchCalls (handleSend service p) = fetchCalls (handleSend_begin p) \<and>
         fetchCalls (handleSend_resume r q) = fetchCalls q"
proof -
  have g: "\<not> handleSend_returns p"
    using assms by (simp add: handleSend_returns_def Session_videoId_def truthy_def)
  then show ?thesis
    using assms(2)
    by (simp add: handleSend_begin_fields handleSend_resume_fields handleSend_def
          chatRequest_def Session_videoId_def)
qed

theorem handleSend_issues_one_request_witness:
  "fetchCalls
     (handleSend (\<lambda>_. Rejected)
        (connectedTo (ustr ''abc123'') blankPanel\<lparr>input_value := '' What is this? ''\<rparr>)) =
   [\<lparr>address = ''http://localhost:5000/chat'',
     httpMethod = ''POST'',
     headers = [(''Content-Type'', ''application/json'')],
     body = [(''video_id'', ustr ''abc123''), (''question'', ustr ''What is this?'')]\<rparr>]"
proof -
  let ?p = "connectedTo (ustr ''abc123'') blankPanel\<lparr>input_value := '' What is this? ''\<rparr>"
  have t: "trim (input_value ?p) = ''What is this?''" by code_simp
  have a: "trim (input_value ?p) \<noteq> []" unfolding t by simp
  have b: "Session_videoId ?p = Some (ustr ''abc123'')"
    by (simp add: Session_videoId_def connectedTo_def)
  have c: "fetchCalls ?p = []" by (simp add: connectedTo_def blankPanel_def)
  have n: "ustr ''abc123'' \<noteq> []" by (simp add: ustr_def)
  show ?thesis
    using handleSend_issues_one_request [OF a b n, of "\<lambda>_. Rejected"]
    by (simp only: t c) simp
qed

lemma replyOf_error:
  assumes "r = Rejected \<or> (\<exists>b. r = Response False b)"
  shows "\<exists>m. replyOf r = Str (''Error: '' @ m) \<and>
           (m = ''Server error'' \<or>
            m = ''Could not connect to server. Make sure app.py is running.'' \<or>
            (\<exists>a e. r = Response False (JSON_data a e) \<and> ToBoolean e \<and> m = ToString e))"
proof (cases r)
  case Rejected
  then show ?thesis by (simp add: replyOf_def)
next
  case (Response ok b)
  with assms have ok: "ok = False" by simp
  show ?thesis
  proof (cases b)
    case NotJSON
    with Response show ?thesis by (simp add: replyOf_def)
  next
    case JSON_null
    with Response show ?thesis by (simp add: replyOf_def)
  next
    case (JSON_data a e)
    with Response ok show ?thesis by (simp add: replyOf_def)
  qed
qed

lemma textContent_set_error: "textContent_set (Str (''Error: '' @ m)) = [TextNode (''Error: '' @ m)]"
  by (simp add: textContent_set_def ToString_def)



lemma replyOf_cases:
  "replyOf Rejected =
     Str ''Error: Could not connect to server. Make sure app.py is running.''"
  "replyOf (Response ok NotJSON) =
     Str ''Error: Could not connect to server. Make sure app.py is running.''"
  "replyOf (Response ok JSON_null) =
     Str ''Error: Could not connect to server. Make sure app.py is running.''"
  "replyOf (Response False (JSON_data answer err)) =
     Str (''Error: '' @ (if ToBoolean err then ToString err else ''Server error''))"
  by (simp_all add: replyOf_def)

text \<open>
  C5. When the request ends in an error, by a rejected \<^verbatim>\<open>fetch\<close> or by a response
  whose status is not a success, then in every state the panel can be in, the rest of
  \<^verbatim>\<open>handleSend\<close> leaves no placeholder and appends to the chat history, without its
  placeholder, exactly one bot message, whose text begins with \<open>Error: \<close>. For a
  response whose body is JSON with a truthy \<^verbatim>\<open>error\<close>, the text is \<open>Error: \<close>
  followed by that \<^verbatim>\<open>error\<close>; with an \<^verbatim>\<open>error\<close> that is absent or falsy, it is
  \<open>Error: Server error\<close>. When \<^verbatim>\<open>fetch\<close> was rejected, and when the body of the
  response is not JSON or is the JSON \<^verbatim>\<open>null\<close>, the text is the one saying that the
  server could not be reached.
\<close>

theorem handleSend_error_reply:
  assumes "reachable q"
  shows "(r = Rejected \<or> (\<exists>b. r = Response False b) \<longrightarrow>
            placeholders (handleSend_resume r q) = 0 \<and>
            chatHistory (handleSend_resume r q) =
              chatHistory (removeLoading q) @
                [Element ''div'' [''message'', ''bot-message''] None
                   (textContent_set (replyOf r))] \<and>
            (\<exists>m. replyOf r = Str (''Error: '' @ m))) \<and>
         chatHistory (handleSend_resume (Response False (JSON_data answer err)) q) =
           chatHistory (removeLoading q) @
             [Element ''div'' [''message'', ''bot-message''] None
                [TextNode
                   (''Error: '' @ (if ToBoolean err then ToString err else ''Server error''))]] \<and>
         chatHistory (handleSend_resume Rejected q) =
           chatHistory (removeLoading q) @
             [Element ''div'' [''message'', ''bot-message''] None
                [TextNode ''Error: Could not connect to server. Make sure app.py is running.'']] \<and>
         chatHistory (handleSend_resume (Response False NotJSON) q) =
           chatHistory (removeLoading q) @
             [Element ''div'' [''message'', ''bot-message''] None
                [TextNode ''Error: Could not connect to server. Make sure app.py is running.'']] \<and>
         chatHistory (handleSend_resume (Response False JSON_null) q) =
           chatHistory (removeLoading q) @
             [Element ''div'' [''message'', ''bot-message''] None
                [TextNode ''Error: Could not connect to server. Make sure app.py is running.'']]"
proof -
  have "panelInv q" using assms by (rule reachable_panelInv)
  then have le: "placeholders q \<le> 1" by (simp add: panelInv_def)
  have hist: "chatHistory (handleSend_resume r' q) =
      chatHistory (removeLoading q) @
        [Element ''div'' [''message'', ''bot-message''] None (textContent_set (replyOf r'))]"
    for r'
    using le by (rule chatHistory_handleSend_resume)
  have gen: "r = Rejected \<or> (\<exists>b. r = Response False b) \<longrightarrow>
      placeholders (handleSend_resume r q) = 0 \<and>
      chatHistory (handleSend_resume r q) =
        chatHistory (removeLoading q) @
          [Element ''div'' [''message'', ''bot-message''] None
             (textContent_set (replyOf r))] \<and>
      (\<exists>m. replyOf r = Str (''Error: '' @ m))"
  proof
    assume e: "r = Rejected \<or> (\<exists>b. r = Response False b)"
    have "\<exists>m. replyOf r = Str (''Error: '' @ m)"
      using replyOf_error [OF e] by blast
    moreover have "placeholders (handleSend_resume r q) = 0"
      using le by (rule placeholders_handleSend_resume)
    ultimately show "placeholders (handleSend_resume r q) = 0 \<and>
      chatHistory (handleSend_resume r q) =
        chatHistory (removeLoading q) @
          [Element ''div'' [''message'', ''bot-message''] None
             (textContent_set (replyOf r))] \<and>
      (\<exists>m. replyOf r = Str (''Error: '' @ m))"
      using hist [of r] by blast
  qed
  have data: "chatHistory (handleSend_resume (Response False (JSON_data answer err)) q) =
      chatHistory (removeLoading q) @
        [Element ''div'' [''message'', ''bot-message''] None
           [TextNode
              (''Error: '' @ (if ToBoolean err then ToString err else ''Server error''))]]"
    by (simp only: hist replyOf_cases textContent_set_error)
  have rej: "chatHistory (handleSend_resume Rejected q) =
      chatHistory (removeLoading q) @
        [Element ''div'' [''message'', ''bot-message''] None
           [TextNode ''Error: Could not connect to server. Make sure app.py is running.'']]"
    by (simp add: hist replyOf_cases textContent_set_def ToString_def)
  have nj: "chatHistory (handleSend_resume (Response False NotJSON) q) =
      chatHistory (removeLoading q) @
        [Element ''div'' [''message'', ''bot-message''] None
           [TextNode ''Error: Could not connect to server. Make sure app.py is running.'']]"
    by (simp add: hist replyOf_cases textContent_set_def ToString_def)
  have nl: "chatHistory (handleSend_resume (Response False JSON_null) q) =
      chatHistory (removeLoading q) @
        [Element ''div'' [''message'', ''bot-message''] None
           [TextNode ''Error: Could not connect to server. Make sure app.py is running.'']]"
    by (simp add: hist replyOf_cases textContent_set_def ToString_def)
  show ?thesis using gen data rej nj nl by blast
qed

theorem handleSend_error_reply_witness:
  "placeholders
     (handleSend_resume (Response False (JSON_data Undefined (Str ''No transcript'')))
        (run [PanelLoaded (tabAt ''https://www.youtube.com/watch?v=abc123''),
              UserTypes ''hi'', SendClicked] blankPanel)) = 0 \<and>
   chatHistory
     (handleSend_resume (Response False (JSON_data Undefined (Str ''No transcript'')))
        (run [PanelLoaded (tabAt ''https://www.youtube.com/watch?v=abc123''),
              UserTypes ''hi'', SendClicked] blankPanel)) =
     greetingHTML @
       [Element ''div'' [''message'', ''user-message''] None [TextNode ''hi''],
        Element ''div'' [''message'', ''bot-message''] None
          [TextNode ''Error: No transcript'']] \<and>
   chatHistory
     (handleSend_resume (Response False (JSON_data Undefined Undefined))
        (run [PanelLoaded (tabAt ''https://www.youtube.com/watch?v=abc123''),
              UserTypes ''hi'', SendClicked] blankPanel)) =
     greetingHTML @
       [Element ''div'' [''message'', ''user-message''] None [TextNode ''hi''],
        Element ''div'' [''message'', ''bot-message''] None
          [TextNode ''Error: Server error'']] \<and>
   chatHistory
     (handleSend_resume Rejected
        (run [PanelLoaded (tabAt ''https://www.youtube.com/watch?v=abc123''),
              UserTypes ''hi'', SendClicked] blankPanel)) =
     greetingHTML @
       [Element ''div'' [''message'', ''user-message''] None [TextNode ''hi''],
        Element ''div'' [''message'', ''bot-message''] None
          [TextNode ''Error: Could not connect to server. Make sure app.py is running.'']]"
proof -
  let ?q = "run [PanelLoaded (tabAt ''https://www.youtube.com/watch?v=abc123''),
                 UserTypes ''hi'', SendClicked] blankPanel"
  let ?r = "Response False (JSON_data Undefined (Str ''No transcript''))"
  have a: "reachable ?q" by (rule reachable_blankPanel)
  have b: "?r = Rejected \<or> (\<exists>b. ?r = Response False b)" by simp
  have c: "chatHistory (removeLoading ?q) =
      greetingHTML @ [Element ''div'' [''message'', ''user-message''] None [TextNode ''hi'']]"
    by code_simp
  have t1: "ToBoolean (Str ''No transcript'')" by (simp add: ToBoolean_def)
  have t2: "ToString (Str ''No transcript'') = ''No transcript''" by (simp add: ToString_def)
  have t3: "\<not> ToBoolean Undefined" by (simp add: ToBoolean_def)
  have A: "placeholders (handleSend_resume ?r ?q) = 0"
    using handleSend_error_reply [OF a, of ?r] b by blast
  have B: "chatHistory (handleSend_resume ?r ?q) =
      greetingHTML @
        [Element ''div'' [''message'', ''user-message''] None [TextNode ''hi''],
         Element ''div'' [''message'', ''bot-message''] None
           [TextNode ''Error: No transcript'']]"
    using handleSend_error_reply
      [OF a, of ?r Undefined "Str ''No transcript''", THEN conjunct2, THEN conjunct1]
    unfolding c t2 by (simp add: t1)
  have C: "chatHistory (handleSend_resume (Response False (JSON_data Undefined Undefined)) ?q) =
      greetingHTML @
        [Element ''div'' [''message'', ''user-message''] None [TextNode ''hi''],
         Element ''div'' [''message'', ''bot-message''] None
           [TextNode ''Error: Server error'']]"
    using handleSend_error_reply
      [OF a, of ?r Undefined Undefined, THEN conjunct2, THEN conjunct1]
    unfolding c by (simp add: t3)
  have D: "chatHistory (handleSend_resume Rejected ?q) =
      greetingHTML @
        [Element ''div'' [''message'', ''user-message''] None [TextNode ''hi''],
         Element ''div'' [''message'', ''bot-message''] None
           [TextNode ''Error: Could not connect to server. Make sure app.py is running.'']]"
    using handleSend_error_reply
      [OF a, of ?r Undefined Undefined, THEN conjunct2, THEN conjunct2, THEN conjunct1]
    unfolding c by simp
  show ?thesis using A B C D by blast
qed

section \<open>The placeholder and the outstanding request\<close>

lemma step_reconcile_cases:
  assumes "e = PanelLoaded t \<or> e = TabUpdated st tb t \<or> e = TabActivated t"
  shows "step e p = p \<or>
         step e p = handleDisconnect ''Not YouTube'' p \<or>
         step e p = handleDisconnect ''No Video ID'' p \<or>
         (\<exists>v. Some v \<noteq> currentVideoId p \<and> step e p = connectedTo v p)"
proof -
  have "step e p = p \<or> step e p = connectToCurrentTab t p"
    using assms by (auto simp: step_def)
  then show ?thesis
    using connect_cases [of t p] by (elim disjE) auto
qed

lemma step_enables:
  assumes "controlsDisabled p" and "\<not> controlsDisabled (step e p)"
  shows "(\<exists>r. e = FetchSettled r) \<or> connectsSession e p"
proof (cases e)
  case (PanelLoaded t)
  then show ?thesis
    using assms step_reconcile_cases [of e t undefined undefined p]
    by (auto simp: connectsSession_def controlsDisabled_def handleDisconnect_def connectedTo_def)
next
  case (TabUpdated st tb t)
  then show ?thesis
    using assms step_reconcile_cases [of e t st tb p]
    by (auto simp: connectsSession_def controlsDisabled_def handleDisconnect_def connectedTo_def)
next
  case (TabActivated t)
  then show ?thesis
    using assms step_reconcile_cases [of e t undefined undefined p]
    by (auto simp: connectsSession_def controlsDisabled_def handleDisconnect_def connectedTo_def)
next
  case (UserTypes s)
  then show ?thesis using assms by (simp add: step_def controlsDisabled_def)
next
  case SendClicked
  then show ?thesis using assms by (simp add: step_def controlsDisabled_def)
next
  case (KeyPressed k)
  then show ?thesis using assms by (simp add: step_def controlsDisabled_def)
next
  case (FetchSettled r)
  then show ?thesis by simp
qed

lemma singleFlight_begin:
  assumes "singleFlight p" and "\<not> input_disabled p \<or> \<not> send_disabled p"
  shows "singleFlight (handleSend_begin p)"
proof (cases "handleSend_returns p")
  case True
  then show ?thesis using assms(1) by (simp add: handleSend_begin_idle)
next
  case False
  have "outstanding p = 0"
    using assms by (auto simp: singleFlight_def controlsDisabled_def)
  then show ?thesis
    using False by (simp add: singleFlight_def controlsDisabled_def handleSend_begin_fields)
qed

lemma singleFlight_step:
  assumes "singleFlight p" and "outstanding p = 0 \<or> \<not> connectsSession e p"
  shows "singleFlight (step e p)"
proof (cases e)
  case (PanelLoaded t)
  then show ?thesis
    using assms step_reconcile_cases [of e t undefined undefined p]
    by (auto simp: connectsSession_def singleFlight_def controlsDisabled_def
          handleDisconnect_def connectedTo_def)
next
  case (TabUpdated st tb t)
  then show ?thesis
    using assms step_reconcile_cases [of e t st tb p]
    by (auto simp: connectsSession_def singleFlight_def controlsDisabled_def
          handleDisconnect_def connectedTo_def)
next
  case (TabActivated t)
  then show ?thesis
    using assms step_reconcile_cases [of e t undefined undefined p]
    by (auto simp: connectsSession_def singleFlight_def controlsDisabled_def
          handleDisconnect_def connectedTo_def)
next
  case (UserTypes s)
  then show ?thesis
    using assms(1) by (auto simp: step_def singleFlight_def controlsDisabled_def)
next
  case SendClicked
  then show ?thesis
    using assms(1) by (simp add: step_def singleFlight_begin)
next
  case (KeyPressed k)
  then show ?thesis
    using assms(1) by (simp add: step_def singleFlight_begin)
next
  case (FetchSettled r)
  then show ?thesis
    using assms(1) by (simp add: step_def singleFlight_def handleSend_resume_fields)
qed

lemma singleFlight_run:
  "singleFlight p \<Longrightarrow> undisturbed es p \<Longrightarrow> singleFlight (run es p)"
  by (induction es arbitrary: p) (simp_all add: singleFlight_step)

lemma currentVideoId_handleSend_begin:
  "currentVideoId (handleSend_begin p) = currentVideoId p"
  by (cases "handleSend_returns p") (simp_all add: handleSend_begin_idle handleSend_begin_fields)

lemma connectsSession_enables:
  assumes "connectsSession e p"
  shows "controlsEnabled (step e p) \<and> chatHistory (step e p) = greetingHTML"
proof (cases e)
  case (PanelLoaded t)
  then show ?thesis
    using assms step_reconcile_cases [of e t undefined undefined p]
    by (auto simp: connectsSession_def handleDisconnect_def connectedTo_session)
next
  case (TabUpdated st tb t)
  then show ?thesis
    using assms step_reconcile_cases [of e t st tb p]
    by (auto simp: connectsSession_def handleDisconnect_def connectedTo_session)
next
  case (TabActivated t)
  then show ?thesis
    using assms step_reconcile_cases [of e t undefined undefined p]
    by (auto simp: connectsSession_def handleDisconnect_def connectedTo_session)
next
  case (UserTypes s)
  then show ?thesis using assms by (auto simp: connectsSession_def step_def)
next
  case SendClicked
  then show ?thesis
    using assms
    by (auto simp: connectsSession_def step_def currentVideoId_handleSend_begin
          split: if_splits)
next
  case (KeyPressed k)
  then show ?thesis
    using assms
    by (auto simp: connectsSession_def step_def currentVideoId_handleSend_begin
          split: if_splits)
next
  case (FetchSettled r)
  then show ?thesis
    using assms by (auto simp: connectsSession_def step_def handleSend_resume_fields)
qed

lemma connect_new_showsVideo:
  assumes "currentVideoId (connectToCurrentTab t p) = Some v"
    and "currentVideoId p \<noteq> Some v"
  shows "showsVideo t v"
  using assms
  by (auto simp: connectToCurrentTab_def showsVideo_def handleDisconnect_def truthy_def
        Let_def split: option.splits if_splits)

lemma connectsSession_reconciles:
  assumes "connectsSession e p"
  shows "\<exists>t v. showsVideo t v \<and> currentVideoId p \<noteq> Some v \<and>
           (e = PanelLoaded t \<or> e = TabActivated t \<or>
            (\<exists>tb. e = TabUpdated (Some ''complete'') tb t \<and> active tb))"
proof -
  obtain v where v: "currentVideoId (step e p) = Some v" "currentVideoId p \<noteq> Some v"
    using assms by (auto simp: connectsSession_def)
  show ?thesis
  proof (cases e)
    case (PanelLoaded t)
    then show ?thesis using v connect_new_showsVideo [of t p v] by (auto simp: step_def)
  next
    case (TabUpdated st tb t)
    then show ?thesis
      using v connect_new_showsVideo [of t p v] by (auto simp: step_def split: if_splits)
  next
    case (TabActivated t)
    then show ?thesis using v connect_new_showsVideo [of t p v] by (auto simp: step_def)
  next
    case (UserTypes s)
    then show ?thesis using v by (auto simp: step_def split: if_splits)
  next
    case SendClicked
    then show ?thesis
      using v by (auto simp: step_def currentVideoId_handleSend_begin split: if_splits)
  next
    case (KeyPressed k)
    then show ?thesis
      using v by (auto simp: step_def currentVideoId_handleSend_begin split: if_splits)
  next
    case (FetchSettled r)
    then show ?thesis
      using v by (auto simp: step_def handleSend_resume_fields split: if_splits)
  qed
qed

lemma connectsSession_showsVideo:
  assumes "showsVideo t v" and "currentVideoId p \<noteq> Some v"
  shows "connectsSession (TabActivated t) p" and "connectsSession (PanelLoaded t) p"
  using assms
  by (simp_all add: connectsSession_def step_def connect_showsVideo connectedTo_def)

text \<open>
  C4, as the code has it. In every state the panel reaches at most one placeholder is
  shown, and none unless a request is outstanding; a submission that passes the guard
  shows exactly one placeholder and disables the input field and the send button; when
  a request has ended, however it ended, the rest of \<^verbatim>\<open>handleSend\<close> leaves no
  placeholder. Between the two, the only event that enables a disabled control, other
  than the end of a request, is a reconciliation that connects the session to a video.
  That is every reconciliation that observes a video which \<^verbatim>\<open>currentVideoId\<close> does not
  hold at that moment: another video, or, after a disconnection, any video, also the
  one the question was asked about. Such a reconciliation enables both controls and
  resets the chat history to the greeting whether or not a request is outstanding. So
  in every sequence of events in which no reconciliation connects the session to a
  video while a request is outstanding, at most one request is outstanding at a time
  and the controls are disabled while it is.
\<close>

theorem placeholder_and_single_flight:
  "(reachable p \<longrightarrow> placeholders p \<le> 1 \<and> placeholders p \<le> outstanding p) \<and>
   (reachable p \<and> (\<not> input_disabled p \<or> \<not> send_disabled p) \<and> \<not> handleSend_returns p \<longrightarrow>
      placeholders (handleSend_begin p) = 1 \<and> controlsDisabled (handleSend_begin p)) \<and>
   (reachable p \<longrightarrow> placeholders (handleSend_resume r p) = 0) \<and>
   (controlsDisabled p \<and> \<not> controlsDisabled (step e p) \<longrightarrow>
      (\<exists>r. e = FetchSettled r) \<or> connectsSession e p) \<and>
   (showsVideo t v \<and> Session_videoId p \<noteq> Some v \<longrightarrow>
      connectsSession (TabActivated t) p \<and> connectsSession (PanelLoaded t) p) \<and>
   (connectsSession e p \<longrightarrow>
      controlsEnabled (step e p) \<and> chatHistory (step e p) = greetingHTML \<and>
      (\<exists>t' v'. showsVideo t' v' \<and> Session_videoId p \<noteq> Some v' \<and>
          (e = PanelLoaded t' \<or> e = TabActivated t' \<or>
           (\<exists>tb. e = TabUpdated (Some ''complete'') tb t' \<and> active tb)))) \<and>
   (initial p0 \<and> undisturbed es p0 \<longrightarrow> singleFlight (run es p0))"
proof (intro conjI impI)
  assume "reachable p"
  then have "panelInv p" by (rule reachable_panelInv)
  then show "placeholders p \<le> 1" and "placeholders p \<le> outstanding p"
    by (simp_all add: panelInv_def)
next
  assume a: "reachable p \<and> (\<not> input_disabled p \<or> \<not> send_disabled p) \<and> \<not> handleSend_returns p"
  then have "panelInv p" by (simp add: reachable_panelInv)
  with a have "placeholders p = 0" by (auto simp: panelInv_def)
  with a show "placeholders (handleSend_begin p) = 1"
    by (simp add: placeholders_handleSend_begin)
  from a show "controlsDisabled (handleSend_begin p)"
    by (simp add: controlsDisabled_def handleSend_begin_fields)
next
  assume "reachable p"
  then have "panelInv p" by (rule reachable_panelInv)
  then have "placeholders p \<le> 1" by (simp add: panelInv_def)
  then show "placeholders (handleSend_resume r p) = 0"
    by (rule placeholders_handleSend_resume)
next
  assume "controlsDisabled p \<and> \<not> controlsDisabled (step e p)"
  then show "(\<exists>r. e = FetchSettled r) \<or> connectsSession e p"
    by (simp add: step_enables)
next
  assume a: "showsVideo t v \<and> Session_videoId p \<noteq> Some v"
  then show "connectsSession (TabActivated t) p" and "connectsSession (PanelLoaded t) p"
    using connectsSession_showsVideo [of t v p] by (simp_all add: Session_videoId_def)
next
  assume a: "connectsSession e p"
  then show "controlsEnabled (step e p)" and "chatHistory (step e p) = greetingHTML"
    by (simp_all add: connectsSession_enables)
  from a show "\<exists>t' v'. showsVideo t' v' \<and> Session_videoId p \<noteq> Some v' \<and>
      (e = PanelLoaded t' \<or> e = TabActivated t' \<or>
       (\<exists>tb. e = TabUpdated (Some ''complete'') tb t' \<and> active tb))"
    unfolding Session_videoId_def by (rule connectsSession_reconciles)
next
  assume a: "initial p0 \<and> undisturbed es p0"
  then have "singleFlight p0" by (simp add: initial_def singleFlight_def)
  with a show "singleFlight (run es p0)" by (simp add: singleFlight_run)
qed

theorem placeholder_and_single_flight_witness:
  "placeholders
     (handleSend_begin
        (run [PanelLoaded (tabAt ''https://www.youtube.com/watch?v=abc123''),
              UserTypes ''hi''] blankPanel)) = 1 \<and>
   controlsDisabled
     (handleSend_begin
        (run [PanelLoaded (tabAt ''https://www.youtube.com/watch?v=abc123''),
              UserTypes ''hi''] blankPanel)) \<and>
   placeholders
     (handleSend_resume Rejected
        (run [PanelLoaded (tabAt ''https://www.youtube.com/watch?v=abc123''),
              UserTypes ''hi'', SendClicked] blankPanel)) = 0 \<and>
   connectsSession (TabActivated (tabAt ''https://www.youtube.com/watch?v=xyz789''))
     (run [PanelLoaded (tabAt ''https://www.youtube.com/watch?v=abc123''),
           UserTypes ''hi'', SendClicked] blankPanel) \<and>
   connectsSession (TabActivated (tabAt ''https://www.youtube.com/watch?v=abc123''))
     (run [PanelLoaded (tabAt ''https://www.youtube.com/watch?v=abc123''),
           UserTypes ''hi'', SendClicked,
           TabActivated (tabAt ''https://example.com'')] blankPanel) \<and>
   controlsEnabled
     (step (TabActivated (tabAt ''https://www.youtube.com/watch?v=abc123''))
        (run [PanelLoaded (tabAt ''https://www.youtube.com/watch?v=abc123''),
              UserTypes ''hi'', SendClicked,
              TabActivated (tabAt ''https://example.com'')] blankPanel)) \<and>
   singleFlight
     (run [PanelLoaded (tabAt ''https://www.youtube.com/watch?v=abc123''),
           UserTypes ''hi'', SendClicked,
           TabActivated (tabAt ''https://www.youtube.com/watch?v=abc123''),
           TabActivated (tabAt ''https://example.com''),
           FetchSettled Rejected,
           TabActivated (tabAt ''https://www.youtube.com/watch?v=xyz789''),
           UserTypes ''again'', KeyPressed ''Enter''] blankPanel)"
proof -
  let ?p = "run [PanelLoaded (tabAt ''https://www.youtube.com/watch?v=abc123''),
                 UserTypes ''hi''] blankPanel"
  let ?q = "run [PanelLoaded (tabAt ''https://www.youtube.com/watch?v=abc123''),
                 UserTypes ''hi'', SendClicked] blankPanel"
  let ?d = "run [PanelLoaded (tabAt ''https://www.youtube.com/watch?v=abc123''),
                 UserTypes ''hi'', SendClicked,
                 TabActivated (tabAt ''https://example.com'')] blankPanel"
  let ?e = "TabActivated (tabAt ''https://www.youtube.com/watch?v=xyz789'')"
  let ?t = "tabAt ''https://www.youtube.com/watch?v=abc123''"
  let ?es = "[PanelLoaded (tabAt ''https://www.youtube.com/watch?v=abc123''),
              UserTypes ''hi'', SendClicked,
              TabActivated (tabAt ''https://www.youtube.com/watch?v=abc123''),
              TabActivated (tabAt ''https://example.com''),
              FetchSettled Rejected,
              TabActivated (tabAt ''https://www.youtube.com/watch?v=xyz789''),
              UserTypes ''again'', KeyPressed ''Enter'']"
  have p1: "reachable ?p" by (rule reachable_blankPanel)
  have p2: "\<not> input_disabled ?p \<or> \<not> send_disabled ?p" by code_simp
  have p3: "\<not> handleSend_returns ?p" by code_simp
  have q1: "reachable ?q" by (rule reachable_blankPanel)
  have q2: "controlsDisabled ?q" by code_simp
  have q3: "\<not> controlsDisabled (step ?e ?q)" by code_simp
  have q4: "\<not> (\<exists>r. ?e = FetchSettled r)" by simp
  have d1: "showsVideo ?t (ustr ''abc123'')" by code_simp
  have d2: "Session_videoId ?d \<noteq> Some (ustr ''abc123'')" by code_simp
  have i: "initial blankPanel" by (simp add: initial_def blankPanel_def)
  have u: "undisturbed ?es blankPanel" by code_simp
  have A: "placeholders (handleSend_begin ?p) = 1 \<and> controlsDisabled (handleSend_begin ?p)"
    using placeholder_and_single_flight [of ?p Rejected ?e ?t "ustr ''abc123''" blankPanel ?es]
      p1 p2 p3 by blast
  have B: "placeholders (handleSend_resume Rejected ?q) = 0 \<and> connectsSession ?e ?q \<and>
      singleFlight (run ?es blankPanel)"
    using placeholder_and_single_flight [of ?q Rejected ?e ?t "ustr ''abc123''" blankPanel ?es]
      q1 q2 q3 q4 i u by blast
  have C: "connectsSession (TabActivated ?t) ?d"
    using placeholder_and_single_flight [of ?d Rejected ?e ?t "ustr ''abc123''" blankPanel ?es]
      d1 d2 by blast
  have D: "controlsEnabled (step (TabActivated ?t) ?d)"
    using placeholder_and_single_flight
      [of ?d Rejected "TabActivated ?t" ?t "ustr ''abc123''" blankPanel ?es] C
    by blast
  show ?thesis using A B C D by blast
qed

text \<open>
  The claim C4 as the specification words it fails: while the request of a question
  about one video is outstanding, a reconciliation that observes another video enables
  the input field and the send button, and a second question can be submitted, so that
  two requests are outstanding. The same happens when the tab leaves the video and
  comes back to it while the request is outstanding.
\<close>

theorem controls_enabled_while_outstanding_counterexample:
  "outstanding
     (run [PanelLoaded (tabAt ''https://www.youtube.com/watch?v=abc123''),
           UserTypes ''hi'', SendClicked,
           TabActivated (tabAt ''https://www.youtube.com/watch?v=xyz789'')] blankPanel) = 1 \<and>
   controlsEnabled
     (run [PanelLoaded (tabAt ''https://www.youtube.com/watch?v=abc123''),
           UserTypes ''hi'', SendClicked,
           TabActivated (tabAt ''https://www.youtube.com/watch?v=xyz789'')] blankPanel) \<and>
   outstanding
     (run [PanelLoaded (tabAt ''https://www.youtube.com/watch?v=abc123''),
           UserTypes ''hi'', SendClicked,
           TabActivated (tabAt ''https://www.youtube.com/watch?v=xyz789''),
           UserTypes ''again'', SendClicked] blankPanel) = 2 \<and>
   outstanding
     (run [PanelLoaded (tabAt ''https://www.youtube.com/watch?v=abc123''),
           UserTypes ''hi'', SendClicked,
           TabActivated (tabAt ''https://example.com''),
           TabActivated (tabAt ''https://www.youtube.com/watch?v=abc123'')] blankPanel) = 1 \<and>
   controlsEnabled
     (run [PanelLoaded (tabAt ''https://www.youtube.com/watch?v=abc123''),
           UserTypes ''hi'', SendClicked,
           TabActivated (tabAt ''https://example.com''),
           TabActivated (tabAt ''https://www.youtube.com/watch?v=abc123'')] blankPanel) \<and>
   outstanding
     (run [PanelLoaded (tabAt ''https://www.youtube.com/watch?v=abc123''),
           UserTypes ''hi'', SendClicked,
           TabActivated (tabAt ''https://example.com''),
           TabActivated (tabAt ''https://www.youtube.com/watch?v=abc123''),
           UserTypes ''again'', SendClicked] blankPanel) = 2"
  by code_simp

end
